theory Spec2Isabelle
  imports Main
begin

section \<open>Go values used by the routing package\<close>

text \<open>
  \<^verbatim>\<open>url.Values\<close> and \<^verbatim>\<open>http.Header\<close> are both \<^verbatim>\<open>map[string][]string\<close>. \<^verbatim>\<open>Get\<close> returns
  the first value stored under the key, and the empty string when the key is absent or
  its value list is empty; \<^verbatim>\<open>Set\<close> replaces the list by a single value.
\<close>

type_synonym Values = "string \<rightharpoonup> string list"

definition Values_Get :: "Values \<Rightarrow> string \<Rightarrow> string" where
  "Values_Get v key =
     (case v key of
        None \<Rightarrow> []
      | Some vs \<Rightarrow> (case vs of [] \<Rightarrow> [] | x # _ \<Rightarrow> x))"

definition Values_Set :: "Values \<Rightarrow> string \<Rightarrow> string \<Rightarrow> Values" where
  "Values_Set v key val = v(key \<mapsto> [val])"

text \<open>
  Go's \<^verbatim>\<open>int\<close> on the 64-bit platforms: a two's complement value in
  \<open>[MinInt, MaxInt]\<close>; addition wraps around silently.
\<close>

definition MaxInt :: int where
  "MaxInt = 2 ^ 63 - 1"

definition MinInt :: int where
  "MinInt = - (2 ^ 63)"

definition int_wrap :: "int \<Rightarrow> int" where
  "int_wrap x = (x + 2 ^ 63) mod 2 ^ 64 - 2 ^ 63"

definition int_add :: "int \<Rightarrow> int \<Rightarrow> int" where
  "int_add a b = int_wrap (a + b)"

text \<open>
  A Go slice of routes is either \<^verbatim>\<open>nil\<close> (\<open>None\<close>) or a view of an array (\<open>Some\<close> of
  its elements). \<^verbatim>\<open>len\<close> of the nil slice is 0.
\<close>

definition len :: "'a list option \<Rightarrow> int" where
  "len r = (case r of None \<Rightarrow> 0 | Some xs \<Rightarrow> int (length xs))"

definition elems :: "'a list option \<Rightarrow> 'a list" where
  "elems r = (case r of None \<Rightarrow> [] | Some xs \<Rightarrow> xs)"

datatype panic = SliceBoundsOutOfRange

text \<open>
  The slice expression \<^verbatim>\<open>r[low:high]\<close>: a run-time panic unless
  \<open>0 \<le> low \<le> high \<le> cap(r)\<close>. Slicing the nil slice (at \<open>[0:0]\<close>) gives the nil slice
  again, slicing a non-nil slice gives a non-nil one, also when it is empty. The model
  bounds \<open>high\<close> by the length: \<^verbatim>\<open>slice\<close> below clamps \<open>high\<close> to the length before it
  slices, so the capacity beyond the length is never reached.
\<close>

definition slice_expr :: "'a list option \<Rightarrow> int \<Rightarrow> int \<Rightarrow> panic + 'a list option" where
  "slice_expr r low high =
     (if 0 \<le> low \<and> low \<le> high \<and> high \<le> len r
      then Inr (case r of
                  None \<Rightarrow> None
                | Some xs \<Rightarrow> Some (take (nat (high - low)) (drop (nat low) xs)))
      else Inl SliceBoundsOutOfRange)"

subsection \<open>strconv\<close>

text \<open>
  \<^verbatim>\<open>strconv.FormatInt(i, 10)\<close> and \<^verbatim>\<open>strconv.Itoa\<close>: the decimal digits of the value, most
  significant first, after a minus sign when it is negative.
\<close>

definition digit_char :: "nat \<Rightarrow> char" where
  "digit_char d = ''0123456789'' ! d"

fun FormatUint :: "nat \<Rightarrow> string" where
  "FormatUint n =
     (if n < 10 then [digit_char n] else FormatUint (n div 10) @ [digit_char (n mod 10)])"

declare FormatUint.simps [simp del]

definition FormatInt :: "int \<Rightarrow> string" where
  "FormatInt i = (if i < 0 then CHR ''-'' # FormatUint (nat (- i)) else FormatUint (nat i))"

definition Itoa :: "int \<Rightarrow> string" where
  "Itoa i = FormatInt i"

text \<open>
  \<^verbatim>\<open>strconv.Atoi\<close>: an optional sign, then one or more decimal digits and nothing else;
  the value must fit \<^verbatim>\<open>int\<close>. Every failure is a \<^verbatim>\<open>*strconv.NumError\<close>; the callers here
  only test the error against \<^verbatim>\<open>nil\<close>.
\<close>

datatype error =
    NumError string
  | InvalidValue int string

definition is_digit :: "char \<Rightarrow> bool" where
  "is_digit c = (48 \<le> (of_char c :: nat) \<and> (of_char c :: nat) \<le> 57)"

definition digits_value :: "string \<Rightarrow> nat" where
  "digits_value ds = foldl (\<lambda>n c. n * 10 + (of_char c - 48)) 0 ds"

definition Atoi :: "string \<Rightarrow> error + int" where
  "Atoi s =
     (case s of
        [] \<Rightarrow> Inl (NumError s)
      | c # cs \<Rightarrow>
          (let neg = (c = CHR ''-'');
               ds = (if c = CHR ''-'' \<or> c = CHR ''+'' then cs else s);
               un = int (digits_value ds)
           in if ds = [] \<or> \<not> list_all is_digit ds then Inl (NumError s)
              else if \<not> neg \<and> un \<ge> 2 ^ 63 then Inl (NumError s)
              else if neg \<and> un > 2 ^ 63 then Inl (NumError s)
              else Inr (if neg then - un else un)))"

subsection \<open>strings\<close>

fun Contains :: "string \<Rightarrow> string \<Rightarrow> bool" where
  "Contains [] substr = (substr = [])"
| "Contains (c # s) substr = (take (length substr) (c # s) = substr \<or> Contains s substr)"

subsection \<open>net/http\<close>

text \<open>
  The request as the handler reads it: \<open>Form\<close> is \<^verbatim>\<open>req.Form\<close> after \<^verbatim>\<open>req.ParseForm()\<close>.
\<close>

record Request =
  Method :: string
  Form :: Values
  Header :: Values

text \<open>
  The response writer: the header map the handler edits, the status line once it is
  written (with the header map as it was at that moment: later edits are not sent), and
  the bytes of the body. \<^verbatim>\<open>WriteHeader\<close> takes effect once; \<^verbatim>\<open>Write\<close> sends status 200
  first if no status has been sent; the server does the same when the handler returns
  without writing.
\<close>

record ResponseWriter =
  header :: Values
  wroteHeader :: "(nat \<times> Values) option"
  body :: string

definition NewResponseWriter :: ResponseWriter where
  "NewResponseWriter = \<lparr>header = Map.empty, wroteHeader = None, body = []\<rparr>"

definition Header_Set :: "string \<Rightarrow> string \<Rightarrow> ResponseWriter \<Rightarrow> ResponseWriter" where
  "Header_Set key val w = w\<lparr>header := Values_Set (header w) key val\<rparr>"

definition WriteHeader :: "nat \<Rightarrow> ResponseWriter \<Rightarrow> ResponseWriter" where
  "WriteHeader code w =
     (case wroteHeader w of
        None \<Rightarrow> w\<lparr>wroteHeader := Some (code, header w)\<rparr>
      | Some _ \<Rightarrow> w)"

definition Write :: "string \<Rightarrow> ResponseWriter \<Rightarrow> ResponseWriter" where
  "Write b w = (let w' = WriteHeader 200 w in w'\<lparr>body := body w' @ b\<rparr>)"

definition newline :: string where
  "newline = [CHR 0x0A]"

text \<open>\<^verbatim>\<open>http.Error\<close>: a plain-text reply with the given status.\<close>

definition http_Error :: "string \<Rightarrow> nat \<Rightarrow> ResponseWriter \<Rightarrow> ResponseWriter" where
  "http_Error msg code w =
     Write (msg @ newline)
       (WriteHeader code
         (Header_Set ''X-Content-Type-Options'' ''nosniff''
           (Header_Set ''Content-Type'' ''text/plain; charset=utf-8'' w)))"

text \<open>What the client receives once the handler has returned.\<close>

definition StatusCode :: "ResponseWriter \<Rightarrow> nat" where
  "StatusCode w = (case wroteHeader w of None \<Rightarrow> 200 | Some (code, _) \<Rightarrow> code)"

definition SentHeader :: "ResponseWriter \<Rightarrow> Values" where
  "SentHeader w = (case wroteHeader w of None \<Rightarrow> header w | Some (_, h) \<Rightarrow> h)"

subsection \<open>encoding/json\<close>

text \<open>
  \<^verbatim>\<open>json.NewEncoder(w).Encode(routes)\<close> for a slice: the nil slice is the literal
  \<^verbatim>\<open>null\<close>, any other slice an array of its marshalled elements; a newline ends the
  value. The text is built before anything is written, so a marshalling error (\<open>None\<close>)
  leaves the writer untouched. \<open>marshal\<close> is the element's \<^verbatim>\<open>MarshalJSON\<close>.
\<close>

fun marshal_all :: "('r \<Rightarrow> string option) \<Rightarrow> 'r list \<Rightarrow> string list option" where
  "marshal_all marshal [] = Some []"
| "marshal_all marshal (x # xs) =
     (case marshal x of
        None \<Rightarrow> None
      | Some s \<Rightarrow> (case marshal_all marshal xs of None \<Rightarrow> None | Some ss \<Rightarrow> Some (s # ss)))"

fun join :: "string list \<Rightarrow> string \<Rightarrow> string" where
  "join [] sep = []"
| "join [s] sep = s"
| "join (s # t # ss) sep = s @ sep @ join (t # ss) sep"

definition json_Encode :: "('r \<Rightarrow> string option) \<Rightarrow> 'r list option \<Rightarrow> string option" where
  "json_Encode marshal v =
     (case v of
        None \<Rightarrow> Some (''null'' @ newline)
      | Some xs \<Rightarrow>
          (case marshal_all marshal xs of
             None \<Rightarrow> None
           | Some ss \<Rightarrow> Some (''['' @ join ss '','' @ '']'' @ newline)))"

section \<open>routing.go\<close>

definition routesTimestampName :: string where
  "routesTimestampName = ''X-Timestamp''"

definition routesCountName :: string where
  "routesCountName = ''X-Count''"

definition defaultRouteListingLimit :: int where
  "defaultRouteListingLimit = 1024"

text \<open>
  A generation of the routing table: the matcher, the creation instant (here its Unix
  second, \<^verbatim>\<open>rt.created.Unix()\<close>) and the valid routes. \<^verbatim>\<open>Routing\<close> holds the current
  generation in an atomic cell: \<^verbatim>\<open>Load\<close> reads it, \<^verbatim>\<open>Store\<close> replaces it.
\<close>

record ('m, 'r) routeTable =
  m :: 'm
  created :: int
  validRoutes :: "'r list option"

record ('m, 'r) Routing =
  routeTable :: "('m, 'r) routeTable"

definition Load :: "('m, 'r) Routing \<Rightarrow> ('m, 'r) routeTable" where
  "Load r = routeTable r"

definition Store :: "('m, 'r) routeTable \<Rightarrow> ('m, 'r) Routing \<Rightarrow> ('m, 'r) Routing" where
  "Store rt r = r\<lparr>routeTable := rt\<rparr>"

record PrettyPrintInfo =
  Pretty :: bool
  IndentStr :: string

definition slice :: "'a list option \<Rightarrow> int \<Rightarrow> int \<Rightarrow> panic + 'a list option" where
  "slice r offset limit =
     (let offset1 = (if offset > len r then len r else offset);
          end0 = int_add offset1 limit;
          end1 = (if end0 > len r then len r else end0)
      in case slice_expr r offset1 end1 of
           Inl p \<Rightarrow> Inl p
         | Inr result \<Rightarrow> (if result = None then Inr (Some []) else Inr result))"

definition extractParam :: "Request \<Rightarrow> string \<Rightarrow> int \<Rightarrow> error + int" where
  "extractParam r key defaultValue =
     (let param = Values_Get (Form r) key
      in if param = [] then Inr defaultValue
         else (case Atoi param of
                 Inl err \<Rightarrow> Inl err
               | Inr val \<Rightarrow> if val < 0 then Inl (InvalidValue val key) else Inr val))"

definition extractPretty :: "Request \<Rightarrow> PrettyPrintInfo" where
  "extractPretty r =
     (case Form r ''nopretty'' of
        None \<Rightarrow> \<lparr>Pretty = True, IndentStr = ''  ''\<rparr>
      | Some vals \<Rightarrow>
          (case vals of
             [] \<Rightarrow> \<lparr>Pretty = True, IndentStr = ''  ''\<rparr>
           | val # _ \<Rightarrow>
               if val = ''0'' \<or> val = ''false''
               then \<lparr>Pretty = True, IndentStr = ''  ''\<rparr>
               else \<lparr>Pretty = False, IndentStr = ''''\<rparr>))"

text \<open>
  \<^verbatim>\<open>Routing.ServeHTTP\<close>. The element marshaller of the JSON encoder and
  \<^verbatim>\<open>eskip.Fprint\<close> (the printer of the textual route syntax) are parameters. The result
  is \<open>Inl\<close> when the handler panics, otherwise the writer as the handler leaves it.
\<close>

definition ServeHTTP ::
  "('r \<Rightarrow> string option) \<Rightarrow> (PrettyPrintInfo \<Rightarrow> 'r list \<Rightarrow> string) \<Rightarrow>
   ('m, 'r) Routing \<Rightarrow> ResponseWriter \<Rightarrow> Request \<Rightarrow> panic + ResponseWriter" where
  "ServeHTTP marshal Fprint r w req =
     (if Method req \<noteq> ''GET'' \<and> Method req \<noteq> ''HEAD'' then Inr (WriteHeader 405 w)
      else
        let rt = Load r;
            createdUnix = FormatInt (created rt);
            ts = Values_Get (Form req) ''timestamp''
        in if ts \<noteq> [] \<and> createdUnix \<noteq> ts then Inr (http_Error ''invalid timestamp'' 400 w)
           else if Method req = ''HEAD'' then
             (let w1 = Header_Set routesTimestampName createdUnix w;
                  w2 = Header_Set routesCountName (Itoa (len (validRoutes rt))) w1
              in if Contains (Values_Get (Header req) ''Accept'') ''application/json''
                 then Inr (Header_Set ''Content-Type'' ''application/json'' w2)
                 else Inr (Header_Set ''Content-Type'' ''text/plain'' w2))
           else
             (case extractParam req ''offset'' 0 of
                Inl err \<Rightarrow> Inr (http_Error ''invalid offset'' 400 w)
              | Inr offset \<Rightarrow>
                  (case extractParam req ''limit'' defaultRouteListingLimit of
                     Inl err \<Rightarrow> Inr (http_Error ''invalid limit'' 400 w)
                   | Inr limit \<Rightarrow>
                       (let w1 = Header_Set routesTimestampName createdUnix w;
                            w2 = Header_Set routesCountName (Itoa (len (validRoutes rt))) w1
                        in case slice (validRoutes rt) offset limit of
                             Inl p \<Rightarrow> Inl p
                           | Inr routes \<Rightarrow>
                               if Contains (Values_Get (Header req) ''Accept'') ''application/json''
                               then
                                 (let w3 = Header_Set ''Content-Type'' ''application/json'' w2
                                  in case json_Encode marshal routes of
                                       None \<Rightarrow> Inr (http_Error ''Internal Server Error'' 500 w3)
                                     | Some js \<Rightarrow> Inr (Write js w3))
                               else
                                 Inr (Write (Fprint (extractPretty req) (elems routes))
                                        (Header_Set ''Content-Type'' ''text/plain'' w2))))))"

text \<open>
  \<^verbatim>\<open>Routing.Route\<close>, \<^verbatim>\<open>Routing.Get\<close> and \<^verbatim>\<open>RouteLookup.Do\<close>. The matcher's \<^verbatim>\<open>match\<close>
  method is a parameter: a function of the matcher and the request that returns the
  route (\<open>None\<close> for \<^verbatim>\<open>nil\<close>) and the path parameters.
\<close>

type_synonym 'c match_result = "'c option \<times> (string \<rightharpoonup> string)"


definition Route ::
  "('m \<Rightarrow> Request \<Rightarrow> 'c match_result) \<Rightarrow> ('m, 'r) Routing \<Rightarrow> Request \<Rightarrow> 'c match_result" where
  "Route match r req = (let rt = Load r in match (m rt) req)"






section \<open>plugins.go\<close>

text \<open>
  A Go \<^verbatim>\<open>error\<close> is its message, \<open>None\<close> for \<^verbatim>\<open>nil\<close>; the three specifications a
  multitype plugin returns are interface values, \<open>None\<close> for \<^verbatim>\<open>nil\<close>. A symbol of a
  plugin either has the type of the multitype \<^verbatim>\<open>InitPlugin\<close> function or some other type.
  \<^verbatim>\<open>plugin.Open\<close> and \<^verbatim>\<open>Plugin.Lookup\<close> are parameters.
\<close>

type_synonym ('f, 'p, 'd) multi_result = "'f option \<times> 'p option \<times> 'd option \<times> string option"

datatype ('f, 'p, 'd) Symbol =
    InitPluginFunc "string list \<Rightarrow> ('f, 'p, 'd) multi_result"
  | OtherSymbol

definition LoadMultiPlugin ::
  "(string \<Rightarrow> string + 'md) \<Rightarrow> ('md \<Rightarrow> string \<Rightarrow> string + ('f, 'p, 'd) Symbol) \<Rightarrow>
   string \<Rightarrow> string list \<Rightarrow> ('f, 'p, 'd) multi_result" where
  "LoadMultiPlugin plugin_Open plugin_Lookup path args =
     (case plugin_Open path of
        Inl err \<Rightarrow> (None, None, None, Some (''open multitype plugin '' @ path @ '': '' @ err))
      | Inr md \<Rightarrow>
          (case plugin_Lookup md ''InitPlugin'' of
             Inl err \<Rightarrow>
               (None, None, None,
                Some (''lookup module symbol failed for '' @ path @ '': '' @ err))
           | Inr symbol \<Rightarrow>
               (case symbol of
                  OtherSymbol \<Rightarrow>
                    (None, None, None,
                     Some (''plugin '' @ path @ [CHR 0x27] @
                           ''s InitPlugin function has wrong signature''))
                | InitPluginFunc fn \<Rightarrow>
                    (case fn args of
                       (fltr, pred, dc, err) \<Rightarrow>
                         (case err of
                            Some e \<Rightarrow>
                              (None, None, None,
                               Some (''plugin '' @ path @ '' returned: '' @ e))
                          | None \<Rightarrow> (fltr, pred, dc, None))))))"

section \<open>A generation and requests to run the definitions on\<close>

definition example_marshal :: "string \<Rightarrow> string option" where
  "example_marshal route = Some (CHR 0x22 # route @ [CHR 0x22])"

definition example_Fprint :: "PrettyPrintInfo \<Rightarrow> string list \<Rightarrow> string" where
  "example_Fprint info routes =
     concat (map (\<lambda>route. IndentStr info @ route @ (if Pretty info then newline else '';'')) routes)"

definition example_routing :: "(unit, string) Routing" where
  "example_routing =
     \<lparr>routeTable = \<lparr>m = (), created = 1500000000, validRoutes = Some [''r1'', ''r2'', ''r3'']\<rparr>\<rparr>"

definition example_request :: "string \<Rightarrow> (string \<times> string list) list \<Rightarrow> string \<Rightarrow> Request" where
  "example_request method query accept =
     \<lparr>Method = method, Form = map_of query, Header = [''Accept'' \<mapsto> [accept]]\<rparr>"


section \<open>Properties of the Go values\<close>

lemmas writer_defs =
  http_Error_def Write_def WriteHeader_def Header_Set_def Values_Set_def
  NewResponseWriter_def StatusCode_def SentHeader_def routesTimestampName_def
  routesCountName_def

lemmas Atoi_defs = Atoi_def digits_value_def is_digit_def

subsection \<open>Wrap-around of the addition\<close>

lemma int_wrap_id: "MinInt \<le> x \<Longrightarrow> x \<le> MaxInt \<Longrightarrow> int_wrap x = x"
  by (simp add: int_wrap_def MinInt_def MaxInt_def)

lemma int_wrap_over: "MaxInt < x \<Longrightarrow> x \<le> 2 * MaxInt \<Longrightarrow> int_wrap x < 0"
  unfolding int_wrap_def MaxInt_def
proof -
  assume a: "2 ^ 63 - 1 < x" "x \<le> 2 * (2 ^ 63 - 1)"
  have "(x + 2 ^ 63) mod 2 ^ 64 = (x + 2 ^ 63 - 2 ^ 64) mod 2 ^ 64"
    by (metis diff_zero mod_diff_right_eq mod_self)
  also have "\<dots> = x + 2 ^ 63 - 2 ^ 64"
    using a by (intro mod_pos_pos_trivial) auto
  finally show "(x + 2 ^ 63) mod 2 ^ 64 - 2 ^ 63 < 0"
    using a by simp
qed

subsection \<open>Parsing and formatting\<close>

lemma Atoi_range: "Atoi s = Inr v \<Longrightarrow> MinInt \<le> v \<and> v \<le> MaxInt"
  by (auto simp: Atoi_def Let_def MinInt_def MaxInt_def split: list.splits if_splits)

lemma Atoi_defaults: "Atoi ''0'' = Inr 0" "Atoi ''1024'' = Inr 1024"
  by (simp_all add: Atoi_defs)

lemma Atoi_MaxInt: "Atoi ''9223372036854775807'' = Inr 9223372036854775807"
  by (simp add: Atoi_defs)

lemma extractParam_range:
  "extractParam req key d = Inr v \<Longrightarrow> 0 \<le> d \<Longrightarrow> d \<le> MaxInt \<Longrightarrow> 0 \<le> v \<and> v \<le> MaxInt"
  by (auto simp: extractParam_def Let_def split: if_splits sum.splits dest: Atoi_range)

lemma extractParam_invalid:
  assumes "Values_Get (Form req) key \<noteq> []"
    and "(\<exists>err. Atoi (Values_Get (Form req) key) = Inl err) \<or>
         (\<exists>n<0. Atoi (Values_Get (Form req) key) = Inr n)"
  shows "\<exists>err. extractParam req key d = Inl err"
  using assms by (auto simp add: extractParam_def)

lemma Values_Get_drop:
  "key \<noteq> key' \<Longrightarrow> Values_Get (v(key' := None)) key = Values_Get v key"
  by (simp add: Values_Get_def)



lemma extractParam_set:
  "extractParam (req\<lparr>Form := (Form req)(key \<mapsto> [val])\<rparr>) key d =
   extractParam \<lparr>Method = [], Form = [key \<mapsto> [val]], Header = Map.empty\<rparr> key d"
  "key \<noteq> key' \<Longrightarrow>
   extractParam (req\<lparr>Form := (Form req)(key' \<mapsto> [val])\<rparr>) key d = extractParam req key d"
  by (simp_all add: extractParam_def Values_Get_def)

text \<open>
  \<^verbatim>\<open>Atoi\<close> reads back what \<^verbatim>\<open>FormatInt\<close> writes, for every value of an \<^verbatim>\<open>int\<close>.
\<close>

lemma digit_cases: "d < 10 \<Longrightarrow> d \<in> {0, 1, 2, 3, 4, 5, 6, 7, 8, 9 :: nat}"
  by auto

lemma of_char_digit_char: "d < 10 \<Longrightarrow> (of_char (digit_char d) :: nat) = 48 + d"
  by (drule digit_cases) (auto simp add: digit_char_def)

lemma is_digit_digit_char: "d < 10 \<Longrightarrow> is_digit (digit_char d)"
  by (simp add: is_digit_def of_char_digit_char)

lemma digits_value_snoc:
  "digits_value (ds @ [c]) = digits_value ds * 10 + (of_char c - 48)"
  by (simp add: digits_value_def)

lemma FormatUint_digits:
  "FormatUint n \<noteq> [] \<and> list_all is_digit (FormatUint n) \<and> digits_value (FormatUint n) = n"
proof (induction n rule: FormatUint.induct)
  case (1 n)
  show ?case
  proof (cases "n < 10")
    case True
    then show ?thesis
      by (subst (1 2 3) FormatUint.simps)
        (simp add: is_digit_digit_char digits_value_def of_char_digit_char)
  next
    case False
    with 1 have ih: "list_all is_digit (FormatUint (n div 10))"
      "digits_value (FormatUint (n div 10)) = n div 10"
      by simp_all
    have d: "n mod 10 < 10" by simp
    from False ih d show ?thesis
      by (subst (1 2 3) FormatUint.simps)
        (simp add: is_digit_digit_char digits_value_snoc of_char_digit_char)
  qed
qed

lemma is_digit_not_sign: "is_digit c \<Longrightarrow> c \<noteq> CHR ''-'' \<and> c \<noteq> CHR ''+''"
  by (auto simp add: is_digit_def)

lemma Atoi_FormatInt:
  assumes "MinInt \<le> i" and "i \<le> MaxInt"
  shows "Atoi (FormatInt i) = Inr i"
proof (cases "i < 0")
  case True
  obtain ds where ds: "FormatUint (nat (- i)) = ds" by simp
  with FormatUint_digits [of "nat (- i)"] have
    "ds \<noteq> []" "list_all is_digit ds" "digits_value ds = nat (- i)"
    by simp_all
  with True assms show ?thesis
    by (simp add: FormatInt_def ds Atoi_def MinInt_def)
next
  case False
  obtain c cs where ds: "FormatUint (nat i) = c # cs"
    using FormatUint_digits [of "nat i"] by (cases "FormatUint (nat i)") auto
  with FormatUint_digits [of "nat i"] have
    d: "list_all is_digit (c # cs)" "digits_value (c # cs) = nat i"
    by simp_all
  then have "c \<noteq> CHR ''-''" "c \<noteq> CHR ''+''"
    using is_digit_not_sign [of c] by simp_all
  with False assms d show ?thesis
    by (simp add: FormatInt_def ds Atoi_def MaxInt_def)
qed

subsection \<open>Pages\<close>

lemma len_nonneg: "0 \<le> len r"
  by (simp add: len_def split: option.splits)

lemma slice_in_range:
  assumes "0 \<le> offset" "0 \<le> limit" "min offset (len r) + limit \<le> MaxInt"
  shows "slice r offset limit = Inr (Some (take (nat limit) (drop (nat offset) (elems r))))"
proof -
  let ?o = "if offset > len r then len r else offset"
  have e0: "int_add ?o limit = ?o + limit"
    unfolding int_add_def using assms len_nonneg [of r]
    by (intro int_wrap_id) (auto simp: MinInt_def min_def split: if_splits)
  show ?thesis
  proof (cases r)
    case None
    with assms show ?thesis
      unfolding slice_def Let_def e0
      by (auto simp: slice_expr_def len_def elems_def)
  next
    case (Some xs)
    with assms show ?thesis
      unfolding slice_def Let_def e0
      by (auto simp: slice_expr_def len_def elems_def min_def)
  qed
qed

lemma slice_returns:
  assumes "0 \<le> offset" "offset \<le> MaxInt" "0 \<le> limit" "limit \<le> MaxInt"
    and "slice r offset limit = Inr res"
  shows "min offset (len r) + limit \<le> MaxInt"
proof (rule ccontr)
  let ?o = "if offset > len r then len r else offset"
  assume "\<not> min offset (len r) + limit \<le> MaxInt"
  then have big: "MaxInt < ?o + limit" by (simp add: min_def split: if_splits)
  have o: "0 \<le> ?o" "?o \<le> MaxInt" using assms len_nonneg [of r] by auto
  have "?o + limit \<le> 2 * MaxInt" using o assms by linarith
  with big have neg: "int_add ?o limit < 0"
    unfolding int_add_def by (rule int_wrap_over)
  have "slice r offset limit = Inl SliceBoundsOutOfRange"
    using neg o len_nonneg [of r]
    by (auto simp: slice_def Let_def slice_expr_def)
  with assms show False by simp
qed

lemma slice_page:
  assumes "extractParam req ''offset'' 0 = Inr offset"
    and "extractParam req ''limit'' defaultRouteListingLimit = Inr limit"
    and "slice r offset limit = Inr res"
  shows "res = Some (take (nat limit) (drop (nat offset) (elems r)))"
proof -
  have o: "0 \<le> offset \<and> offset \<le> MaxInt"
    using assms(1) by (rule extractParam_range) (simp_all add: MaxInt_def)
  have l: "0 \<le> limit \<and> limit \<le> MaxInt"
    using assms(2) by (rule extractParam_range) (simp_all add: MaxInt_def defaultRouteListingLimit_def)
  from o l assms(3) have "min offset (len r) + limit \<le> MaxInt"
    by (intro slice_returns [of offset limit r res]) simp_all
  with o l have "slice r offset limit = Inr (Some (take (nat limit) (drop (nat offset) (elems r))))"
    by (intro slice_in_range) simp_all
  with assms(3) show ?thesis by simp
qed

lemma slice_length:
  assumes "0 \<le> offset" "0 \<le> limit" "min offset (len r) + limit \<le> MaxInt"
  shows "\<exists>page. slice r offset limit = Inr (Some page) \<and>
           int (length page) = min limit (len r - min offset (len r))"
  using slice_in_range [OF assms] assms
  by (auto simp add: len_def elems_def min_def split: option.splits)


text \<open>The pagination scenario of the specification, and a sum that wraps around.\<close>

lemma slice_scenario:
  "slice (Some [1, 2, 3, 4, 5, 6, 7, 8, 9, 10 :: nat]) 8 5 = Inr (Some [9, 10])"
  "slice (Some [1, 2, 3, 4, 5, 6, 7, 8, 9, 10 :: nat]) 100 5 = Inr (Some [])"
  by (simp_all add: slice_def slice_expr_def len_def int_add_def int_wrap_def)

lemma slice_overflow:
  "slice (Some [a, b, c]) 1 9223372036854775807 = Inl SliceBoundsOutOfRange"
  by (simp add: slice_def slice_expr_def len_def int_add_def int_wrap_def)

section \<open>The handler, branch by branch\<close>





lemma ServeHTTP_GET_ok:
  assumes "Method req = ''GET''"
    and "Values_Get (Form req) ''timestamp'' = [] \<or>
         Values_Get (Form req) ''timestamp'' = FormatInt (created (Load r))"
    and "extractParam req ''offset'' 0 = Inr offset"
    and "extractParam req ''limit'' defaultRouteListingLimit = Inr limit"
    and "slice (validRoutes (Load r)) offset limit = Inr routes"
  shows "ServeHTTP marshal Fprint r w req =
     Inr (let w2 = Header_Set ''X-Count'' (Itoa (len (validRoutes (Load r))))
                     (Header_Set ''X-Timestamp'' (FormatInt (created (Load r))) w)
          in if Contains (Values_Get (Header req) ''Accept'') ''application/json''
             then (case json_Encode marshal routes of
                     None \<Rightarrow> http_Error ''Internal Server Error'' 500
                               (Header_Set ''Content-Type'' ''application/json'' w2)
                   | Some js \<Rightarrow> Write js (Header_Set ''Content-Type'' ''application/json'' w2))
             else Write (Fprint (extractPretty req) (elems routes))
                    (Header_Set ''Content-Type'' ''text/plain'' w2))"
  using assms
  by (auto simp add: ServeHTTP_def Let_def routesTimestampName_def routesCountName_def
      split: option.splits)

lemma ServeHTTP_GET_200:
  assumes "Method req = ''GET''"
    and "ServeHTTP marshal Fprint r NewResponseWriter req = Inr w"
    and "StatusCode w = 200"
  shows "\<exists>offset limit.
           extractParam req ''offset'' 0 = Inr offset \<and>
           extractParam req ''limit'' defaultRouteListingLimit = Inr limit \<and>
           slice (validRoutes (Load r)) offset limit =
             Inr (Some (take (nat limit) (drop (nat offset) (elems (validRoutes (Load r)))))) \<and>
           (if Contains (Values_Get (Header req) ''Accept'') ''application/json''
            then SentHeader w ''Content-Type'' = Some [''application/json''] \<and>
                 json_Encode marshal
                   (Some (take (nat limit) (drop (nat offset) (elems (validRoutes (Load r)))))) =
                   Some (body w)
            else SentHeader w ''Content-Type'' = Some [''text/plain''] \<and>
                 body w = Fprint (extractPretty req)
                   (take (nat limit) (drop (nat offset) (elems (validRoutes (Load r))))))"
proof -
  from assms obtain offset where po: "extractParam req ''offset'' 0 = Inr offset"
    by (auto simp add: ServeHTTP_def Let_def writer_defs split: if_splits sum.splits)
  from assms po obtain limit where
    pl: "extractParam req ''limit'' defaultRouteListingLimit = Inr limit"
    by (auto simp add: ServeHTTP_def Let_def writer_defs split: if_splits sum.splits)
  from assms po pl obtain res where
    sl: "slice (validRoutes (Load r)) offset limit = Inr res"
    by (auto simp add: ServeHTTP_def Let_def writer_defs split: if_splits sum.splits)
  have res: "res = Some (take (nat limit) (drop (nat offset) (elems (validRoutes (Load r)))))"
    using po pl sl by (rule slice_page)
  have "if Contains (Values_Get (Header req) ''Accept'') ''application/json''
        then SentHeader w ''Content-Type'' = Some [''application/json''] \<and>
             json_Encode marshal res = Some (body w)
        else SentHeader w ''Content-Type'' = Some [''text/plain''] \<and>
             body w = Fprint (extractPretty req) (elems res)"
    using assms po pl sl
    by (auto simp add: ServeHTTP_def Let_def writer_defs split: if_splits option.splits)
  with po pl sl res show ?thesis
    by (auto simp add: elems_def)
qed

lemma ServeHTTP_GET_invalid:
  assumes "Method req = ''GET''"
    and "(\<exists>err. extractParam req ''offset'' 0 = Inl err) \<or>
         (\<exists>err. extractParam req ''limit'' defaultRouteListingLimit = Inl err)"
  shows "\<exists>w. ServeHTTP marshal Fprint r NewResponseWriter req = Inr w \<and> StatusCode w = 400"
  using assms
  by (auto simp add: ServeHTTP_def Let_def writer_defs split: sum.splits)

text \<open>The handler reads the request only through these values.\<close>

lemma ServeHTTP_cong:
  assumes "Method req = Method req'" and "Header req = Header req'"
    and "Values_Get (Form req) ''timestamp'' = Values_Get (Form req') ''timestamp''"
    and "extractParam req ''offset'' 0 = extractParam req' ''offset'' 0"
    and "extractParam req ''limit'' defaultRouteListingLimit =
         extractParam req' ''limit'' defaultRouteListingLimit"
    and "extractPretty req = extractPretty req'"
  shows "ServeHTTP marshal Fprint r w req = ServeHTTP marshal Fprint r w req'"
  unfolding ServeHTTP_def Let_def assms ..

lemma ServeHTTP_default_offset:
  assumes "Values_Get (Form req) ''offset'' = []"
  shows "ServeHTTP marshal Fprint r w req =
         ServeHTTP marshal Fprint r w (req\<lparr>Form := (Form req)(''offset'' \<mapsto> [''0''])\<rparr>)"
proof (rule ServeHTTP_cong)
  show "extractParam req ''offset'' 0 =
        extractParam (req\<lparr>Form := (Form req)(''offset'' \<mapsto> [''0''])\<rparr>) ''offset'' 0"
    using assms by (simp add: extractParam_def Values_Get_def Atoi_defaults)
qed (simp_all add: extractParam_set Values_Get_def extractPretty_def)

lemma ServeHTTP_default_limit:
  assumes "Values_Get (Form req) ''limit'' = []"
  shows "ServeHTTP marshal Fprint r w req =
         ServeHTTP marshal Fprint r w (req\<lparr>Form := (Form req)(''limit'' \<mapsto> [''1024''])\<rparr>)"
proof (rule ServeHTTP_cong)
  show "extractParam req ''limit'' defaultRouteListingLimit =
        extractParam (req\<lparr>Form := (Form req)(''limit'' \<mapsto> [''1024''])\<rparr>) ''limit''
          defaultRouteListingLimit"
    using assms
    by (simp add: extractParam_def Values_Get_def Atoi_defaults defaultRouteListingLimit_def)
qed (simp_all add: extractParam_set Values_Get_def extractPretty_def)

section \<open>The example, evaluated\<close>

lemma FormatInt_created: "FormatInt 1500000000 = ''1500000000''"
  by (simp add: FormatInt_def FormatUint.simps digit_char_def)

lemma Itoa_count: "Itoa 3 = ''3''"
  by (simp add: Itoa_def FormatInt_def FormatUint.simps digit_char_def)

lemmas example_defs =
  example_request_def example_routing_def example_marshal_def example_Fprint_def
  Load_def Values_Get_def

lemma example_created: "FormatInt (created (Load example_routing)) = ''1500000000''"
  by (simp add: example_defs FormatInt_created)

lemma example_count: "Itoa (len (validRoutes (Load example_routing))) = ''3''"
  by (simp add: example_defs len_def Itoa_count)

lemma example_page:
  "ServeHTTP example_marshal example_Fprint example_routing NewResponseWriter
     (example_request ''GET'' [(''offset'', [''1'']), (''limit'', [''1''])] ''application/json'') =
   Inr (Write (''['' @ [CHR 0x22] @ ''r2'' @ [CHR 0x22] @ '']'' @ newline)
         (Header_Set ''Content-Type'' ''application/json''
           (Header_Set ''X-Count'' ''3''
             (Header_Set ''X-Timestamp'' ''1500000000'' NewResponseWriter))))"
proof -
  let ?req = "example_request ''GET'' [(''offset'', [''1'']), (''limit'', [''1''])] ''application/json''"
  have po: "extractParam ?req ''offset'' 0 = Inr 1"
    by (simp add: extractParam_def example_defs Atoi_defs)
  have pl: "extractParam ?req ''limit'' defaultRouteListingLimit = Inr 1"
    by (simp add: extractParam_def example_defs Atoi_defs)
  have sl: "slice (validRoutes (Load example_routing)) 1 1 = Inr (Some [''r2''])"
    by (simp add: example_defs slice_def slice_expr_def len_def int_add_def int_wrap_def)
  have js: "json_Encode example_marshal (Some [''r2'']) =
      Some (''['' @ [CHR 0x22] @ ''r2'' @ [CHR 0x22] @ '']'' @ newline)"
    by (simp add: json_Encode_def example_marshal_def)
  have ts: "Values_Get (Form ?req) ''timestamp'' = []"
    by (simp add: example_defs)
  have ac: "Contains (Values_Get (Header ?req) ''Accept'') ''application/json''"
    by (simp add: example_defs)
  have me: "Method ?req = ''GET''"
    by (simp add: example_defs)
  show ?thesis
    unfolding ServeHTTP_def Let_def po pl example_created example_count
    by (simp add: me ts ac sl js routesTimestampName_def routesCountName_def)
qed

lemma example_params_default:
  "extractParam (example_request method [] accept) ''offset'' 0 = Inr 0"
  "extractParam (example_request method [] accept) ''limit'' defaultRouteListingLimit = Inr 1024"
  "extractParam (example_request method [(''nopretty'', [''1''])] accept) ''offset'' 0 = Inr 0"
  "extractParam (example_request method [(''nopretty'', [''1''])] accept) ''limit''
     defaultRouteListingLimit = Inr 1024"
  by (simp_all add: extractParam_def example_defs defaultRouteListingLimit_def)

lemma example_slice_all:
  "slice (validRoutes (Load example_routing)) 0 1024 = Inr (Some [''r1'', ''r2'', ''r3''])"
  by (simp add: example_defs slice_def slice_expr_def len_def int_add_def int_wrap_def)

lemma example_text:
  "ServeHTTP example_marshal example_Fprint example_routing NewResponseWriter
     (example_request ''GET'' [] ''text/plain'') =
   Inr (Write (example_Fprint \<lparr>Pretty = True, IndentStr = ''  ''\<rparr> [''r1'', ''r2'', ''r3''])
         (Header_Set ''Content-Type'' ''text/plain''
           (Header_Set ''X-Count'' ''3''
             (Header_Set ''X-Timestamp'' ''1500000000'' NewResponseWriter))))"
proof -
  let ?req = "example_request ''GET'' [] ''text/plain''"
  have me: "Method ?req = ''GET''" by (simp add: example_defs)
  have ts: "Values_Get (Form ?req) ''timestamp'' = [] \<or>
      Values_Get (Form ?req) ''timestamp'' = FormatInt (created (Load example_routing))"
    by (simp add: example_defs)
  have ac: "\<not> Contains (Values_Get (Header ?req) ''Accept'') ''application/json''"
    by (simp add: example_defs)
  have pp: "extractPretty ?req = \<lparr>Pretty = True, IndentStr = ''  ''\<rparr>"
    by (simp add: extractPretty_def example_defs)
  show ?thesis
    unfolding ServeHTTP_GET_ok [OF me ts example_params_default(1,2) example_slice_all]
      example_created example_count Let_def
    by (simp add: ac pp elems_def)
qed

lemma example_text_nopretty:
  "ServeHTTP example_marshal example_Fprint example_routing NewResponseWriter
     (example_request ''GET'' [(''nopretty'', [''1''])] ''text/plain'') =
   Inr (Write (example_Fprint \<lparr>Pretty = False, IndentStr = ''''\<rparr> [''r1'', ''r2'', ''r3''])
         (Header_Set ''Content-Type'' ''text/plain''
           (Header_Set ''X-Count'' ''3''
             (Header_Set ''X-Timestamp'' ''1500000000'' NewResponseWriter))))"
proof -
  let ?req = "example_request ''GET'' [(''nopretty'', [''1''])] ''text/plain''"
  have me: "Method ?req = ''GET''" by (simp add: example_defs)
  have ts: "Values_Get (Form ?req) ''timestamp'' = [] \<or>
      Values_Get (Form ?req) ''timestamp'' = FormatInt (created (Load example_routing))"
    by (simp add: example_defs)
  have ac: "\<not> Contains (Values_Get (Header ?req) ''Accept'') ''application/json''"
    by (simp add: example_defs)
  have pp: "extractPretty ?req = \<lparr>Pretty = False, IndentStr = ''''\<rparr>"
    by (simp add: extractPretty_def example_defs)
  show ?thesis
    unfolding ServeHTTP_GET_ok [OF me ts example_params_default(3,4) example_slice_all]
      example_created example_count Let_def
    by (simp add: ac pp elems_def)
qed

lemma example_head:
  "ServeHTTP example_marshal example_Fprint example_routing NewResponseWriter
     (example_request ''HEAD'' [] ''text/plain'') =
   Inr (Header_Set ''Content-Type'' ''text/plain''
         (Header_Set ''X-Count'' ''3''
           (Header_Set ''X-Timestamp'' ''1500000000'' NewResponseWriter)))"
  unfolding ServeHTTP_def Let_def example_created example_count
  by (simp add: example_request_def Values_Get_def routesTimestampName_def routesCountName_def)

lemma example_text_empty_limit:
  "ServeHTTP example_marshal example_Fprint example_routing NewResponseWriter
     (example_request ''GET'' [(''limit'', [''''])] ''text/plain'') =
   Inr (Write (example_Fprint \<lparr>Pretty = True, IndentStr = ''  ''\<rparr> [''r1'', ''r2'', ''r3''])
         (Header_Set ''Content-Type'' ''text/plain''
           (Header_Set ''X-Count'' ''3''
             (Header_Set ''X-Timestamp'' ''1500000000'' NewResponseWriter))))"
proof -
  have "ServeHTTP example_marshal example_Fprint example_routing NewResponseWriter
     (example_request ''GET'' [(''limit'', [''''])] ''text/plain'') =
    ServeHTTP example_marshal example_Fprint example_routing NewResponseWriter
     (example_request ''GET'' [] ''text/plain'')"
    by (rule ServeHTTP_cong) (simp_all add: example_defs extractParam_def extractPretty_def)
  then show ?thesis
    by (simp only: example_text)
qed

section \<open>The introspection endpoint\<close>

text \<open>
  Claim C3. A \<^verbatim>\<open>GET\<close> or \<^verbatim>\<open>HEAD\<close> request that is answered without an error status
  carries the header \<^verbatim>\<open>X-Timestamp\<close>, the Unix second of the current generation's creation
  in decimal, and the header \<^verbatim>\<open>X-Count\<close>, the number of valid routes of that generation.
\<close>

theorem ServeHTTP_headers:
  assumes "Method req = ''GET'' \<or> Method req = ''HEAD''"
    and "ServeHTTP marshal Fprint r NewResponseWriter req = Inr w"
    and "StatusCode w < 400"
  shows "SentHeader w ''X-Timestamp'' = Some [FormatInt (created (Load r))] \<and>
         SentHeader w ''X-Count'' = Some [Itoa (len (validRoutes (Load r)))]"
  using assms
  by (auto simp add: ServeHTTP_def Let_def writer_defs split: if_splits sum.splits option.splits)

theorem ServeHTTP_headers_witness:
  "(Method (example_request ''GET'' [(''offset'', [''1'']), (''limit'', [''1''])] ''application/json'') = ''GET'' \<or>
    Method (example_request ''GET'' [(''offset'', [''1'']), (''limit'', [''1''])] ''application/json'') = ''HEAD'') \<and>
   ServeHTTP example_marshal example_Fprint example_routing NewResponseWriter
     (example_request ''GET'' [(''offset'', [''1'']), (''limit'', [''1''])] ''application/json'') =
   Inr (Write (''['' @ [CHR 0x22] @ ''r2'' @ [CHR 0x22] @ '']'' @ newline)
         (Header_Set ''Content-Type'' ''application/json''
           (Header_Set ''X-Count'' ''3''
             (Header_Set ''X-Timestamp'' ''1500000000'' NewResponseWriter)))) \<and>
   StatusCode (Write (''['' @ [CHR 0x22] @ ''r2'' @ [CHR 0x22] @ '']'' @ newline)
         (Header_Set ''Content-Type'' ''application/json''
           (Header_Set ''X-Count'' ''3''
             (Header_Set ''X-Timestamp'' ''1500000000'' NewResponseWriter)))) < 400 \<and>
   SentHeader (Write (''['' @ [CHR 0x22] @ ''r2'' @ [CHR 0x22] @ '']'' @ newline)
         (Header_Set ''Content-Type'' ''application/json''
           (Header_Set ''X-Count'' ''3''
             (Header_Set ''X-Timestamp'' ''1500000000'' NewResponseWriter)))) ''X-Timestamp'' =
     Some [FormatInt (created (Load example_routing))] \<and>
   SentHeader (Write (''['' @ [CHR 0x22] @ ''r2'' @ [CHR 0x22] @ '']'' @ newline)
         (Header_Set ''Content-Type'' ''application/json''
           (Header_Set ''X-Count'' ''3''
             (Header_Set ''X-Timestamp'' ''1500000000'' NewResponseWriter)))) ''X-Count'' =
     Some [Itoa (len (validRoutes (Load example_routing)))]"
proof -
  let ?req = "example_request ''GET'' [(''offset'', [''1'']), (''limit'', [''1''])] ''application/json''"
  let ?w = "Write (''['' @ [CHR 0x22] @ ''r2'' @ [CHR 0x22] @ '']'' @ newline)
         (Header_Set ''Content-Type'' ''application/json''
           (Header_Set ''X-Count'' ''3''
             (Header_Set ''X-Timestamp'' ''1500000000'' NewResponseWriter)))"
  have h1: "Method ?req = ''GET'' \<or> Method ?req = ''HEAD''"
    by (simp add: example_request_def)
  have h2: "ServeHTTP example_marshal example_Fprint example_routing NewResponseWriter ?req = Inr ?w"
    by (rule example_page)
  have h3: "StatusCode ?w < 400"
    by (simp add: writer_defs)
  from ServeHTTP_headers [OF h1 h2 h3] h1 h2 h3 show ?thesis
    by blast
qed



text \<open>
  Claim C7. When a \<^verbatim>\<open>GET\<close> request is answered with the textual output, the page is
  printed with \<^verbatim>\<open>Pretty = true\<close> and an indentation of two spaces if the \<^verbatim>\<open>nopretty\<close>
  parameter is absent, and with \<^verbatim>\<open>Pretty = false\<close> for every value of \<^verbatim>\<open>nopretty\<close> other
  than \<^verbatim>\<open>0\<close> and \<^verbatim>\<open>false\<close>, so for every truthy value.
\<close>

theorem ServeHTTP_nopretty:
  assumes "Method req = ''GET''"
    and "ServeHTTP marshal Fprint r NewResponseWriter req = Inr w"
    and "StatusCode w = 200"
    and "\<not> Contains (Values_Get (Header req) ''Accept'') ''application/json''"
  shows "\<exists>offset limit.
           extractParam req ''offset'' 0 = Inr offset \<and>
           extractParam req ''limit'' defaultRouteListingLimit = Inr limit \<and>
           (Form req ''nopretty'' = None \<or> Form req ''nopretty'' = Some [] \<longrightarrow>
              body w = Fprint \<lparr>Pretty = True, IndentStr = ''  ''\<rparr>
                (take (nat limit) (drop (nat offset) (elems (validRoutes (Load r)))))) \<and>
           (\<forall>val vals. Form req ''nopretty'' = Some (val # vals) \<and> val \<noteq> ''0'' \<and> val \<noteq> ''false'' \<longrightarrow>
              body w = Fprint \<lparr>Pretty = False, IndentStr = ''''\<rparr>
                (take (nat limit) (drop (nat offset) (elems (validRoutes (Load r))))))"
proof -
  from ServeHTTP_GET_200 [OF assms(1-3)] assms(4) obtain offset limit where
    po: "extractParam req ''offset'' 0 = Inr offset" and
    pl: "extractParam req ''limit'' defaultRouteListingLimit = Inr limit" and
    bd: "body w = Fprint (extractPretty req)
           (take (nat limit) (drop (nat offset) (elems (validRoutes (Load r)))))"
    by auto
  have "Form req ''nopretty'' = None \<or> Form req ''nopretty'' = Some [] \<Longrightarrow>
        extractPretty req = \<lparr>Pretty = True, IndentStr = ''  ''\<rparr>"
    by (auto simp add: extractPretty_def)
  moreover have "\<And>val vals. Form req ''nopretty'' = Some (val # vals) \<Longrightarrow> val \<noteq> ''0'' \<Longrightarrow>
        val \<noteq> ''false'' \<Longrightarrow> extractPretty req = \<lparr>Pretty = False, IndentStr = ''''\<rparr>"
    by (simp add: extractPretty_def)
  ultimately show ?thesis
    using po pl bd by (intro exI [of _ offset] exI [of _ limit]) auto
qed

theorem ServeHTTP_nopretty_witness:
  "Form (example_request ''GET'' [] ''text/plain'') ''nopretty'' = None \<and>
   body (Write (example_Fprint \<lparr>Pretty = True, IndentStr = ''  ''\<rparr> [''r1'', ''r2'', ''r3''])
         (Header_Set ''Content-Type'' ''text/plain''
           (Header_Set ''X-Count'' ''3''
             (Header_Set ''X-Timestamp'' ''1500000000'' NewResponseWriter)))) =
     example_Fprint \<lparr>Pretty = True, IndentStr = ''  ''\<rparr>
       (take (nat 1024) (drop (nat 0) (elems (validRoutes (Load example_routing))))) \<and>
   Form (example_request ''GET'' [(''nopretty'', [''1''])] ''text/plain'') ''nopretty'' = Some [''1''] \<and>
   body (Write (example_Fprint \<lparr>Pretty = False, IndentStr = ''''\<rparr> [''r1'', ''r2'', ''r3''])
         (Header_Set ''Content-Type'' ''text/plain''
           (Header_Set ''X-Count'' ''3''
             (Header_Set ''X-Timestamp'' ''1500000000'' NewResponseWriter)))) =
     example_Fprint \<lparr>Pretty = False, IndentStr = ''''\<rparr>
       (take (nat 1024) (drop (nat 0) (elems (validRoutes (Load example_routing)))))"
proof -
  let ?a = "example_request ''GET'' [] ''text/plain''"
  let ?b = "example_request ''GET'' [(''nopretty'', [''1''])] ''text/plain''"
  let ?h = "Header_Set ''Content-Type'' ''text/plain''
           (Header_Set ''X-Count'' ''3''
             (Header_Set ''X-Timestamp'' ''1500000000'' NewResponseWriter))"
  let ?wa = "Write (example_Fprint \<lparr>Pretty = True, IndentStr = ''  ''\<rparr> [''r1'', ''r2'', ''r3'']) ?h"
  let ?wb = "Write (example_Fprint \<lparr>Pretty = False, IndentStr = ''''\<rparr> [''r1'', ''r2'', ''r3'']) ?h"
  have a1: "Method ?a = ''GET''" and b1: "Method ?b = ''GET''"
    by (simp_all add: example_defs)
  have a3: "StatusCode ?wa = 200" and b3: "StatusCode ?wb = 200"
    by (simp_all add: writer_defs)
  have a4: "\<not> Contains (Values_Get (Header ?a) ''Accept'') ''application/json''"
    and b4: "\<not> Contains (Values_Get (Header ?b) ''Accept'') ''application/json''"
    by (simp_all add: example_defs)
  have a5: "Form ?a ''nopretty'' = None" and b5: "Form ?b ''nopretty'' = Some [''1'']"
    by (simp_all add: example_defs)
  have b6: "''1'' \<noteq> ''0'' \<and> ''1'' \<noteq> ''false''"
    by simp
  from ServeHTTP_nopretty [OF a1 example_text a3 a4] a5 have
    "body ?wa = example_Fprint \<lparr>Pretty = True, IndentStr = ''  ''\<rparr>
       (take (nat 1024) (drop (nat 0) (elems (validRoutes (Load example_routing)))))"
    by (auto simp add: example_params_default)
  moreover from ServeHTTP_nopretty [OF b1 example_text_nopretty b3 b4] b5 b6 have
    "body ?wb = example_Fprint \<lparr>Pretty = False, IndentStr = ''''\<rparr>
       (take (nat 1024) (drop (nat 0) (elems (validRoutes (Load example_routing)))))"
    by (auto simp add: example_params_default)
  ultimately show ?thesis
    using a5 b5 by blast
qed







text \<open>
  Claim C5, as the handler has it. A \<^verbatim>\<open>GET\<close> request whose \<^verbatim>\<open>offset\<close> or \<^verbatim>\<open>limit\<close>
  parameter has a non-empty value that \<^verbatim>\<open>Atoi\<close> does not parse, or parses to a negative
  number, is answered with status 400. A parameter that is absent or empty takes its
  default, 0 for the offset and 1024 for the limit: the handler answers as it answers
  the request that spells the default out.
\<close>

theorem ServeHTTP_pagination_parameters:
  assumes "Method req = ''GET''"
  shows "((Values_Get (Form req) ''offset'' \<noteq> [] \<and>
           ((\<exists>err. Atoi (Values_Get (Form req) ''offset'') = Inl err) \<or>
            (\<exists>n<0. Atoi (Values_Get (Form req) ''offset'') = Inr n))) \<or>
          (Values_Get (Form req) ''limit'' \<noteq> [] \<and>
           ((\<exists>err. Atoi (Values_Get (Form req) ''limit'') = Inl err) \<or>
            (\<exists>n<0. Atoi (Values_Get (Form req) ''limit'') = Inr n))) \<longrightarrow>
          (\<exists>w'. ServeHTTP marshal Fprint r NewResponseWriter req = Inr w' \<and> StatusCode w' = 400)) \<and>
         (Values_Get (Form req) ''offset'' = [] \<longrightarrow>
            extractParam req ''offset'' 0 = Inr 0 \<and>
            ServeHTTP marshal Fprint r w req =
            ServeHTTP marshal Fprint r w (req\<lparr>Form := (Form req)(''offset'' \<mapsto> [''0''])\<rparr>)) \<and>
         (Values_Get (Form req) ''limit'' = [] \<longrightarrow>
            extractParam req ''limit'' defaultRouteListingLimit = Inr 1024 \<and>
            ServeHTTP marshal Fprint r w req =
            ServeHTTP marshal Fprint r w (req\<lparr>Form := (Form req)(''limit'' \<mapsto> [''1024''])\<rparr>))"
proof (intro conjI impI)
  assume "(Values_Get (Form req) ''offset'' \<noteq> [] \<and>
           ((\<exists>err. Atoi (Values_Get (Form req) ''offset'') = Inl err) \<or>
            (\<exists>n<0. Atoi (Values_Get (Form req) ''offset'') = Inr n))) \<or>
          (Values_Get (Form req) ''limit'' \<noteq> [] \<and>
           ((\<exists>err. Atoi (Values_Get (Form req) ''limit'') = Inl err) \<or>
            (\<exists>n<0. Atoi (Values_Get (Form req) ''limit'') = Inr n)))"
  then have "(\<exists>err. extractParam req ''offset'' 0 = Inl err) \<or>
         (\<exists>err. extractParam req ''limit'' defaultRouteListingLimit = Inl err)"
    using extractParam_invalid [of req "''offset''" 0]
      extractParam_invalid [of req "''limit''" defaultRouteListingLimit]
    by blast
  with assms show "\<exists>w'. ServeHTTP marshal Fprint r NewResponseWriter req = Inr w' \<and> StatusCode w' = 400"
    by (rule ServeHTTP_GET_invalid)
next
  assume "Values_Get (Form req) ''offset'' = []"
  then show "extractParam req ''offset'' 0 = Inr 0"
    by (simp add: extractParam_def)
next
  assume "Values_Get (Form req) ''offset'' = []"
  then show "ServeHTTP marshal Fprint r w req =
      ServeHTTP marshal Fprint r w (req\<lparr>Form := (Form req)(''offset'' \<mapsto> [''0''])\<rparr>)"
    by (rule ServeHTTP_default_offset)
next
  assume "Values_Get (Form req) ''limit'' = []"
  then show "extractParam req ''limit'' defaultRouteListingLimit = Inr 1024"
    by (simp add: extractParam_def defaultRouteListingLimit_def)
next
  assume "Values_Get (Form req) ''limit'' = []"
  then show "ServeHTTP marshal Fprint r w req =
      ServeHTTP marshal Fprint r w (req\<lparr>Form := (Form req)(''limit'' \<mapsto> [''1024''])\<rparr>)"
    by (rule ServeHTTP_default_limit)
qed

theorem ServeHTTP_pagination_parameters_witness:
  "Values_Get (Form (example_request ''GET'' [(''offset'', [''-1''])] ''text/plain'')) ''offset'' \<noteq> [] \<and>
   Atoi (Values_Get (Form (example_request ''GET'' [(''offset'', [''-1''])] ''text/plain'')) ''offset'') =
     Inr (- 1) \<and>
   (\<exists>w'. ServeHTTP example_marshal example_Fprint example_routing NewResponseWriter
           (example_request ''GET'' [(''offset'', [''-1''])] ''text/plain'') = Inr w' \<and>
         StatusCode w' = 400) \<and>
   Values_Get (Form (example_request ''GET'' [] ''text/plain'')) ''offset'' = [] \<and>
   Values_Get (Form (example_request ''GET'' [] ''text/plain'')) ''limit'' = [] \<and>
   extractParam (example_request ''GET'' [] ''text/plain'') ''offset'' 0 = Inr 0 \<and>
   extractParam (example_request ''GET'' [] ''text/plain'') ''limit'' defaultRouteListingLimit =
     Inr 1024"
proof -
  let ?a = "example_request ''GET'' [(''offset'', [''-1''])] ''text/plain''"
  let ?b = "example_request ''GET'' [] ''text/plain''"
  have a1: "Method ?a = ''GET''" and b1: "Method ?b = ''GET''"
    by (simp_all add: example_request_def)
  have a2: "Values_Get (Form ?a) ''offset'' \<noteq> []"
    by (simp add: example_defs)
  have a3: "Atoi (Values_Get (Form ?a) ''offset'') = Inr (- 1)"
    by (simp add: example_defs Atoi_defs)
  have b2: "Values_Get (Form ?b) ''offset'' = []" and b3: "Values_Get (Form ?b) ''limit'' = []"
    by (simp_all add: example_defs)
  note A = ServeHTTP_pagination_parameters [OF a1, where r = example_routing
      and marshal = example_marshal and Fprint = example_Fprint and w = NewResponseWriter]
  note B = ServeHTTP_pagination_parameters [OF b1, where r = example_routing
      and marshal = example_marshal and Fprint = example_Fprint and w = NewResponseWriter]
  from a3 have "\<exists>n<0. Atoi (Values_Get (Form ?a) ''offset'') = Inr n"
    by simp
  with A a2 have
    "\<exists>w'. ServeHTTP example_marshal example_Fprint example_routing NewResponseWriter ?a = Inr w' \<and>
          StatusCode w' = 400"
    by blast
  moreover from B b2 b3 have
    "extractParam ?b ''offset'' 0 = Inr 0 \<and>
     extractParam ?b ''limit'' defaultRouteListingLimit = Inr 1024"
    by blast
  ultimately show ?thesis
    using a2 a3 b2 b3 by blast
qed

text \<open>
  Claim C5, as stated, at two requests: a \<^verbatim>\<open>HEAD\<close> request with the offset \<^verbatim>\<open>-1\<close> is
  answered with status 200, as the \<^verbatim>\<open>HEAD\<close> branch returns before the parameters are
  read; and a \<^verbatim>\<open>GET\<close> request whose \<^verbatim>\<open>limit\<close> is present with the empty value, which is
  no integer, is answered with status 200 and the default page.
\<close>

theorem ServeHTTP_pagination_parameters_counterexample:
  "Form (example_request ''HEAD'' [(''offset'', [''-1''])] ''text/plain'') ''offset'' = Some [''-1''] \<and>
   Atoi ''-1'' = Inr (- 1) \<and>
   ServeHTTP example_marshal example_Fprint example_routing NewResponseWriter
     (example_request ''HEAD'' [(''offset'', [''-1''])] ''text/plain'') =
   Inr (Header_Set ''Content-Type'' ''text/plain''
         (Header_Set ''X-Count'' ''3''
           (Header_Set ''X-Timestamp'' ''1500000000'' NewResponseWriter))) \<and>
   StatusCode (Header_Set ''Content-Type'' ''text/plain''
         (Header_Set ''X-Count'' ''3''
           (Header_Set ''X-Timestamp'' ''1500000000'' NewResponseWriter))) = 200 \<and>
   Form (example_request ''GET'' [(''limit'', [''''])] ''text/plain'') ''limit'' = Some [''''] \<and>
   Atoi '''' = Inl (NumError '''') \<and>
   ServeHTTP example_marshal example_Fprint example_routing NewResponseWriter
     (example_request ''GET'' [(''limit'', [''''])] ''text/plain'') =
   Inr (Write (example_Fprint \<lparr>Pretty = True, IndentStr = ''  ''\<rparr> [''r1'', ''r2'', ''r3''])
         (Header_Set ''Content-Type'' ''text/plain''
           (Header_Set ''X-Count'' ''3''
             (Header_Set ''X-Timestamp'' ''1500000000'' NewResponseWriter)))) \<and>
   StatusCode (Write (example_Fprint \<lparr>Pretty = True, IndentStr = ''  ''\<rparr> [''r1'', ''r2'', ''r3''])
         (Header_Set ''Content-Type'' ''text/plain''
           (Header_Set ''X-Count'' ''3''
             (Header_Set ''X-Timestamp'' ''1500000000'' NewResponseWriter)))) = 200"
proof -
  have "ServeHTTP example_marshal example_Fprint example_routing NewResponseWriter
     (example_request ''HEAD'' [(''offset'', [''-1''])] ''text/plain'') =
    ServeHTTP example_marshal example_Fprint example_routing NewResponseWriter
     (example_request ''HEAD'' [] ''text/plain'')"
    by (simp add: ServeHTTP_def example_request_def Values_Get_def)
  then have "ServeHTTP example_marshal example_Fprint example_routing NewResponseWriter
     (example_request ''HEAD'' [(''offset'', [''-1''])] ''text/plain'') =
   Inr (Header_Set ''Content-Type'' ''text/plain''
         (Header_Set ''X-Count'' ''3''
           (Header_Set ''X-Timestamp'' ''1500000000'' NewResponseWriter)))"
    by (simp only: example_head)
  moreover have "Atoi ''-1'' = Inr (- 1)" and "Atoi '''' = Inl (NumError '''')"
    by (simp_all add: Atoi_defs)
  moreover have
    "Form (example_request ''HEAD'' [(''offset'', [''-1''])] ''text/plain'') ''offset'' = Some [''-1'']"
    "Form (example_request ''GET'' [(''limit'', [''''])] ''text/plain'') ''limit'' = Some ['''']"
    by (simp_all add: example_request_def)
  moreover have "StatusCode (Header_Set ''Content-Type'' ''text/plain''
         (Header_Set ''X-Count'' ''3''
           (Header_Set ''X-Timestamp'' ''1500000000'' NewResponseWriter))) = 200"
    "StatusCode (Write (example_Fprint \<lparr>Pretty = True, IndentStr = ''  ''\<rparr> [''r1'', ''r2'', ''r3''])
         (Header_Set ''Content-Type'' ''text/plain''
           (Header_Set ''X-Count'' ''3''
             (Header_Set ''X-Timestamp'' ''1500000000'' NewResponseWriter)))) = 200"
    by (simp_all add: writer_defs)
  ultimately show ?thesis
    using example_text_empty_limit by blast
qed

text \<open>
  Claim C2 at the request \<^verbatim>\<open>GET ?offset=1&limit=9223372036854775807\<close> on a generation of
  three routes. Both parameters are non-negative integers that \<^verbatim>\<open>Atoi\<close> accepts, and the
  claimed page has \<open>min limit (3 - min offset 3) = 2\<close> routes. In \<^verbatim>\<open>slice\<close> the sum
  \<^verbatim>\<open>offset + limit\<close> wraps around to the least \<^verbatim>\<open>int\<close>, the clamp \<^verbatim>\<open>end > len(r)\<close> does not
  fire, and the slice expression panics: the handler returns no page and no status.
\<close>

theorem ServeHTTP_limit_overflow:
  "extractParam (example_request ''GET'' [(''offset'', [''1'']), (''limit'', [''9223372036854775807''])]
      ''text/plain'') ''offset'' 0 = Inr 1 \<and>
   extractParam (example_request ''GET'' [(''offset'', [''1'']), (''limit'', [''9223372036854775807''])]
      ''text/plain'') ''limit'' defaultRouteListingLimit = Inr MaxInt \<and>
   min MaxInt (len (validRoutes (Load example_routing)) -
     min 1 (len (validRoutes (Load example_routing)))) = 2 \<and>
   ServeHTTP example_marshal example_Fprint example_routing NewResponseWriter
     (example_request ''GET'' [(''offset'', [''1'']), (''limit'', [''9223372036854775807''])]
        ''text/plain'') =
   Inl SliceBoundsOutOfRange"
proof -
  let ?req = "example_request ''GET'' [(''offset'', [''1'']), (''limit'', [''9223372036854775807''])]
      ''text/plain''"
  have po: "extractParam ?req ''offset'' 0 = Inr 1"
    by (simp add: extractParam_def example_defs Atoi_defs)
  have pl: "extractParam ?req ''limit'' defaultRouteListingLimit = Inr 9223372036854775807"
    by (simp add: extractParam_def example_defs Atoi_MaxInt)
  have me: "Method ?req = ''GET''" and ts: "Values_Get (Form ?req) ''timestamp'' = []"
    by (simp_all add: example_defs)
  have sl: "slice (validRoutes (Load example_routing)) 1 9223372036854775807 =
      Inl SliceBoundsOutOfRange"
    by (simp add: example_defs slice_overflow)
  have "ServeHTTP example_marshal example_Fprint example_routing NewResponseWriter ?req =
      Inl SliceBoundsOutOfRange"
    unfolding ServeHTTP_def Let_def po pl by (simp add: me ts sl)
  moreover have "min MaxInt (len (validRoutes (Load example_routing)) -
     min 1 (len (validRoutes (Load example_routing)))) = 2"
    by (simp add: example_defs len_def MaxInt_def)
  ultimately show ?thesis
    using po pl by (simp add: MaxInt_def)
qed




section \<open>Pinned lookups\<close>



lemma Route_Store: "Route match (Store rt r) req = match (m rt) req"
  by (simp add: Route_def Store_def Load_def)



section \<open>Multitype plugins\<close>

text \<open>
  Claim C10. \<^verbatim>\<open>LoadMultiPlugin\<close> returns either a nil error, or a non-nil error together
  with a nil filter specification, a nil predicate specification and a nil data client:
  never a partly populated result beside an error.
\<close>

theorem LoadMultiPlugin_all_or_nothing:
  assumes "LoadMultiPlugin plugin_Open plugin_Lookup path args = (fltr, pred, dc, err)"
  shows "err = None \<or> (err \<noteq> None \<and> fltr = None \<and> pred = None \<and> dc = None)"
  using assms
  by (auto simp add: LoadMultiPlugin_def split: sum.splits Symbol.splits prod.splits option.splits)

theorem LoadMultiPlugin_all_or_nothing_witness:
  "LoadMultiPlugin (\<lambda>path. Inr ())
     (\<lambda>md name. Inr (InitPluginFunc
        (\<lambda>args. (Some ''filter'', None :: unit option, Some ''client'', Some ''no config''))))
     ''p.so'' [] =
   (None, None, None, Some ''plugin p.so returned: no config'') \<and>
   (Some ''plugin p.so returned: no config'' = None \<or>
    (Some ''plugin p.so returned: no config'' \<noteq> None \<and>
     (None :: string option) = None \<and> (None :: unit option) = None \<and>
     (None :: string option) = None))"
proof -
  have h: "LoadMultiPlugin (\<lambda>path. Inr ())
     (\<lambda>md name. Inr (InitPluginFunc
        (\<lambda>args. (Some ''filter'', None :: unit option, Some ''client'', Some ''no config''))))
     ''p.so'' [] =
   (None, None, None, Some ''plugin p.so returned: no config'')"
    by (simp add: LoadMultiPlugin_def)
  from LoadMultiPlugin_all_or_nothing [OF h] h show ?thesis
    by blast
qed

end
